theory Spec2Isabelle
  imports Main
begin

section \<open>The Markdown-to-Word conversion script (convert\_to\_word.py)\<close>

text \<open>
  The script probes for pandoc, runs it once on a fixed input file, and falls back to
  printing manual instructions. Everything it does is an effect on its surroundings:
  it spawns subprocesses, asks whether a path exists, and prints. The model threads a
  state through the four functions of the script; the state holds the operating-system
  environment and the trace of the effects performed so far, in order.

  Python strings are modelled as \<^typ>\<open>string\<close>; a character outside ASCII is written as
  the bytes of its UTF-8 encoding, which is what reaches a UTF-8 terminal. The calls of
  print and of \<open>os.path.abspath\<close> are taken to return; every exception of the model
  comes from \<open>subprocess.run\<close>.
\<close>

subsection \<open>The environment\<close>

text \<open>
  What the operating system answers when a command is spawned and waited for:
  the process ran and exited with a status, its standard output and its standard error;
  the executable was not found (Python raises FileNotFoundError, with the given text);
  the call failed with some other subclass of Exception, such as PermissionError;
  or the call was interrupted by an exception outside Exception (KeyboardInterrupt).
\<close>

datatype outcome =
    Exited int string string
  | NotFound string
  | Failed string
  | Interrupted

text \<open>
  The operating system is a parameter of the model. Its state has any type \<open>'e\<close>;
  spawning a command may change it (the tool writes files), the next two only read it.
  The last field is the strict decoder of the encoding of the locale, which text mode
  applies to captured bytes: it gives the text, or the message of the
  UnicodeDecodeError it raises.
\<close>

record 'e os =
  os_spawn :: "string list \<Rightarrow> 'e \<Rightarrow> outcome \<times> 'e"
  os_exists :: "string \<Rightarrow> 'e \<Rightarrow> bool"
  os_abspath :: "string \<Rightarrow> 'e \<Rightarrow> string"
  os_decode :: "string \<Rightarrow> string + string"

text \<open>
  The effects of the script, as they appear in the trace: a call of print with its
  argument; a call of subprocess.run with its command and its capture\_output flag;
  the output of a child process that was not captured and so went to the terminal of
  the script; a call of os.path.exists with its path.
\<close>

datatype event =
    Print string
  | SubprocessRun "string list" bool
  | Inherited string string
  | PathExists string

record 'e state =
  env :: 'e
  trace :: "event list"

subsection \<open>Exceptions and the library calls\<close>

datatype exn =
    CalledProcessError int "string list"
  | FileNotFoundError string
  | UnicodeDecodeError string
  | OtherException string
  | KeyboardInterrupt

text \<open>\<open>isinstance(e, Exception)\<close>: what \<open>except Exception\<close> catches.\<close>

fun is_Exception :: "exn \<Rightarrow> bool" where
  "is_Exception KeyboardInterrupt = False"
| "is_Exception _ = True"

text \<open>
  \<open>str(e)\<close>. The text of a CalledProcessError is not rendered: the script never prints
  one (lemma \<open>subprocess_run_no_check\<close> below).
\<close>

fun str_exn :: "exn \<Rightarrow> string" where
  "str_exn (CalledProcessError rc cmd) = ''Command returned non-zero exit status''"
| "str_exn (FileNotFoundError m) = m"
| "str_exn (UnicodeDecodeError m) = m"
| "str_exn (OtherException m) = m"
| "str_exn KeyboardInterrupt = []"

record completed_process =
  returncode :: int
  stdout :: "string option"
  stderr :: "string option"

text \<open>How an f-string renders an optional string: \<open>None\<close> prints as the word None.\<close>

fun fstr :: "string option \<Rightarrow> string" where
  "fstr None = ''None''"
| "fstr (Some t) = t"

definition print :: "string \<Rightarrow> 'e state \<Rightarrow> 'e state" where
  "print t s = s\<lparr>trace := trace s @ [Print t]\<rparr>"

text \<open>
  Text mode, as \<open>Popen._translate_newlines\<close> does it: decode the bytes strictly, then
  replace every CR LF by LF, then every remaining CR by LF.
\<close>

fun replace_crlf :: "string \<Rightarrow> string" where
  "replace_crlf [] = []"
| "replace_crlf [c] = [c]"
| "replace_crlf (c # d # cs) =
     (if c = CHR 0x0D \<and> d = CHR 0x0A then CHR 0x0A # replace_crlf cs
      else c # replace_crlf (d # cs))"

definition replace_cr :: "string \<Rightarrow> string" where
  "replace_cr t = map (\<lambda>c. if c = CHR 0x0D then CHR 0x0A else c) t"

definition translate_newlines :: "'e os \<Rightarrow> string \<Rightarrow> exn + string" where
  "translate_newlines os data =
     (case os_decode os data of
        Inl m \<Rightarrow> Inl (UnicodeDecodeError m)
      | Inr t \<Rightarrow> Inr (replace_cr (replace_crlf t)))"

text \<open>
  What \<open>Popen.communicate\<close> hands back for the two streams of a child that has exited:
  None for both when they were not captured, the bytes as they are when captured
  without text mode, and in text mode the translated text of standard output, then of
  standard error, or the UnicodeDecodeError of the first that does not decode.
\<close>

definition communicate ::
  "'e os \<Rightarrow> bool \<Rightarrow> bool \<Rightarrow> string \<Rightarrow> string \<Rightarrow> exn + string option \<times> string option" where
  "communicate os capture_output text so se =
     (if \<not> capture_output then Inr (None, None)
      else if \<not> text then Inr (Some so, Some se)
      else
        (case translate_newlines os so of
           Inl x \<Rightarrow> Inl x
         | Inr tso \<Rightarrow>
             (case translate_newlines os se of
                Inl x \<Rightarrow> Inl x
              | Inr tse \<Rightarrow> Inr (Some tso, Some tse))))"

text \<open>
  \<open>subprocess.run(args, capture_output=..., text=..., check=...)\<close>: spawn the command
  and wait. With capture\_output the streams of the child are pipes read by the script
  and returned in the result; without it the child inherits the terminal of the script
  and the result holds None. The streams are read, and in text mode decoded, after the
  child has exited and before the status is looked at: a UnicodeDecodeError leaves the
  call although the child has done its work. With check, a non-zero status raises
  CalledProcessError.
\<close>

definition subprocess_run ::
  "'e os \<Rightarrow> string list \<Rightarrow> bool \<Rightarrow> bool \<Rightarrow> bool \<Rightarrow> 'e state \<Rightarrow>
     (exn + completed_process) \<times> 'e state" where
  "subprocess_run os args capture_output text check s =
     (case os_spawn os args (env s) of (out, e') \<Rightarrow>
        let s1 = s\<lparr>env := e', trace := trace s @ [SubprocessRun args capture_output]\<rparr> in
        (case out of
           NotFound m \<Rightarrow> (Inl (FileNotFoundError m), s1)
         | Failed m \<Rightarrow> (Inl (OtherException m), s1)
         | Interrupted \<Rightarrow> (Inl KeyboardInterrupt, s1)
         | Exited rc so se \<Rightarrow>
             let s2 = (if capture_output then s1
                       else s1\<lparr>trace := trace s1 @ [Inherited so se]\<rparr>)
             in (case communicate os capture_output text so se of
                   Inl x \<Rightarrow> (Inl x, s2)
                 | Inr (out_text, err_text) \<Rightarrow>
                     if check \<and> rc \<noteq> 0 then (Inl (CalledProcessError rc args), s2)
                     else (Inr \<lparr>returncode = rc, stdout = out_text, stderr = err_text\<rparr>,
                           s2))))"

definition path_exists :: "'e os \<Rightarrow> string \<Rightarrow> 'e state \<Rightarrow> bool \<times> 'e state" where
  "path_exists os p s = (os_exists os p (env s), s\<lparr>trace := trace s @ [PathExists p]\<rparr>)"

subsection \<open>The script\<close>

definition check_mark :: string where "check_mark = [CHR 0xE2, CHR 0x9C, CHR 0x85]"
definition cross_mark :: string where "cross_mark = [CHR 0xE2, CHR 0x9D, CHR 0x8C]"
definition page_emoji :: string where "page_emoji = [CHR 0xF0, CHR 0x9F, CHR 0x93, CHR 0x84]"
definition clipboard_emoji :: string where "clipboard_emoji = [CHR 0xF0, CHR 0x9F, CHR 0x93, CHR 0x8B]"
definition memo_emoji :: string where "memo_emoji = [CHR 0xF0, CHR 0x9F, CHR 0x93, CHR 0x9D]"
definition palette_emoji :: string where "palette_emoji = [CHR 0xF0, CHR 0x9F, CHR 0x8E, CHR 0xA8]"
definition chart_emoji :: string where "chart_emoji = [CHR 0xF0, CHR 0x9F, CHR 0x93, CHR 0x8A]"
definition disk_emoji :: string where "disk_emoji = [CHR 0xF0, CHR 0x9F, CHR 0x92, CHR 0xBE]"
definition game_emoji :: string where "game_emoji = [CHR 0xF0, CHR 0x9F, CHR 0x8E, CHR 0xAE]"
definition party_emoji :: string where "party_emoji = [CHR 0xF0, CHR 0x9F, CHR 0x8E, CHR 0x89]"
definition book_emoji :: string where "book_emoji = [CHR 0xF0, CHR 0x9F, CHR 0x93, CHR 0x96]"
definition books_emoji :: string where "books_emoji = [CHR 0xF0, CHR 0x9F, CHR 0x93, CHR 0x9A]"
definition warning_emoji :: string where
  "warning_emoji = [CHR 0xE2, CHR 0x9A, CHR 0xA0, CHR 0xEF, CHR 0xB8, CHR 0x8F]"

definition nl :: string where "nl = [CHR 0x0A]"
definition apostrophe :: string where "apostrophe = [CHR 0x27]"

definition input_file :: string where
  "input_file = ''Game_Architecture_Documentation.md''"

definition output_file :: string where
  "output_file = ''Game_Architecture_Documentation.docx''"

definition probe_cmd :: "string list" where
  "probe_cmd = [''pandoc'', ''--version'']"

definition convert_cmd :: "string list" where
  "convert_cmd =
     [''pandoc'',
      input_file,
      ''-o'', output_file,
      ''--from'', ''markdown'',
      ''--to'', ''docx'',
      ''--standalone'',
      ''--toc'',
      ''--number-sections'']"

text \<open>
  \<open>check_pandoc\<close>: run \<open>pandoc --version\<close> with captured output, without text mode,
  and with check; True when it returns, False on CalledProcessError or
  FileNotFoundError; any other exception is not handled here and propagates.
\<close>

definition check_pandoc :: "'e os \<Rightarrow> 'e state \<Rightarrow> (exn + bool) \<times> 'e state" where
  "check_pandoc os s =
     (case subprocess_run os probe_cmd True False True s of
        (Inr _, s1) \<Rightarrow> (Inr True, s1)
      | (Inl (CalledProcessError rc cmd), s1) \<Rightarrow> (Inr False, s1)
      | (Inl (FileNotFoundError m), s1) \<Rightarrow> (Inr False, s1)
      | (Inl e, s1) \<Rightarrow> (Inl e, s1))"

text \<open>
  \<open>convert_with_pandoc\<close>: the existence check comes first, outside the try block; the
  call of pandoc (captured, in text mode, without check) and the prints that follow it
  are inside, under \<open>except Exception\<close>.
\<close>

definition convert_with_pandoc :: "'e os \<Rightarrow> 'e state \<Rightarrow> (exn + bool) \<times> 'e state" where
  "convert_with_pandoc os s =
     (case path_exists os input_file s of (ex, s1) \<Rightarrow>
        if \<not> ex then
          (Inr False, print (''Error: '' @ input_file @ '' not found!'') s1)
        else
          (case subprocess_run os convert_cmd True True False s1 of
             (Inr result, s2) \<Rightarrow>
               if returncode result = 0 then
                 (Inr True,
                  print (page_emoji @ '' File location: '' @ os_abspath os output_file (env s2))
                    (print (check_mark @ '' Successfully converted to '' @ output_file) s2))
               else
                 (Inr False, print (cross_mark @ '' Conversion failed: '' @ fstr (stderr result)) s2)
           | (Inl e, s2) \<Rightarrow>
               if is_Exception e then
                 (Inr False, print (cross_mark @ '' Error during conversion: '' @ str_exn e) s2)
               else (Inl e, s2)))"

text \<open>The lines of \<open>manual_conversion_instructions\<close>, one per call of print.\<close>

definition manual_lines :: "string list" where
  "manual_lines =
     [nl @ replicate 60 CHR ''='',
      ''MANUAL CONVERSION INSTRUCTIONS'',
      replicate 60 CHR ''='',
      nl @ ''If pandoc is not available, you can manually convert the documentation:'',
      nl @ ''1. '' @ clipboard_emoji @ '' Copy the content from '' @ apostrophe
         @ ''Game_Architecture_Documentation.md'' @ apostrophe,
      ''2. '' @ memo_emoji @ '' Open Microsoft Word'',
      ''3. '' @ page_emoji @ '' Create a new document'',
      ''4. '' @ clipboard_emoji @ '' Paste the content'',
      ''5. '' @ palette_emoji @ '' Apply formatting:'',
      ''   - Use Heading 1 for main sections'',
      ''   - Use Heading 2 for subsections'',
      ''   - Use Heading 3 for sub-subsections'',
      ''   - Format code blocks with monospace font'',
      ''   - Add page breaks between major sections'',
      ''6. '' @ chart_emoji @ '' For the architecture diagram:'',
      ''   - Copy the ASCII diagram'',
      ''   - Use a monospace font (like Courier New)'',
      ''   - Or recreate it using Word'' @ apostrophe @ ''s drawing tools'',
      ''7. '' @ disk_emoji @ '' Save as .docx format'',
      nl @ replicate 60 CHR ''='']"

definition manual_conversion_instructions :: "'e state \<Rightarrow> 'e state" where
  "manual_conversion_instructions s = fold print manual_lines s"

definition banner_lines :: "string list" where
  "banner_lines =
     [game_emoji @ '' Game Architecture Documentation Converter'',
      replicate 50 CHR ''='']"

definition tips_lines :: "string list" where
  "tips_lines =
     [nl @ books_emoji @ '' Additional Tips:'',
      ''- The Markdown file contains all the content you need'',
      ''- The ASCII diagram can be enhanced with Word'' @ apostrophe @ ''s drawing tools'',
      ''- Consider adding screenshots of the game for visual appeal'',
      ''- Use Word'' @ apostrophe @ ''s built-in table of contents feature'']"

definition found_line :: string where
  "found_line = check_mark @ '' Pandoc found! Attempting automatic conversion...''"

definition success_lines :: "string list" where
  "success_lines =
     [nl @ party_emoji @ '' Conversion completed successfully!'',
      book_emoji @ '' You can now open the Word document and format it as needed.'']"

definition failed_line :: string where
  "failed_line =
     nl @ warning_emoji @ ''  Automatic conversion failed. Using manual instructions...''"

definition not_found_line :: string where
  "not_found_line = cross_mark @ '' Pandoc not found. Using manual conversion instructions...''"

definition main :: "'e os \<Rightarrow> 'e state \<Rightarrow> (exn + unit) \<times> 'e state" where
  "main os s =
     (let s0 = fold print banner_lines s in
      case check_pandoc os s0 of
        (Inl e, s1) \<Rightarrow> (Inl e, s1)
      | (Inr True, s1) \<Rightarrow>
          (case convert_with_pandoc os (print found_line s1) of
             (Inl e, s2) \<Rightarrow> (Inl e, s2)
           | (Inr True, s2) \<Rightarrow>
               (Inr (), fold print tips_lines (fold print success_lines s2))
           | (Inr False, s2) \<Rightarrow>
               (Inr (), fold print tips_lines
                          (manual_conversion_instructions (print failed_line s2))))
      | (Inr False, s1) \<Rightarrow>
          (Inr (), fold print tips_lines
                     (manual_conversion_instructions (print not_found_line s1))))"

text \<open>
  Running the file as a script: a fresh trace, then \<open>main()\<close>. The script never calls
  \<open>sys.exit\<close>, so the interpreter exits with status 0 when main returns. When an
  exception leaves main the interpreter prints the traceback and exits with status 1;
  an interrupt ends it through the signal, which a POSIX shell reports as 130.
\<close>

definition initial :: "'e \<Rightarrow> 'e state" where
  "initial e = \<lparr>env = e, trace = []\<rparr>"

definition script :: "'e os \<Rightarrow> 'e \<Rightarrow> int \<times> 'e state" where
  "script os e =
     (case main os (initial e) of
        (Inr u, s) \<Rightarrow> (0, s)
      | (Inl KeyboardInterrupt, s) \<Rightarrow> (130, s)
      | (Inl x, s) \<Rightarrow> (1, s))"

subsection \<open>Reading a trace\<close>

text \<open>The arguments of the print calls, the commands spawned, what reached the terminal.\<close>

fun printed :: "event list \<Rightarrow> string list" where
  "printed [] = []"
| "printed (Print t # evs) = t # printed evs"
| "printed (_ # evs) = printed evs"

fun spawned :: "event list \<Rightarrow> string list list" where
  "spawned [] = []"
| "spawned (SubprocessRun c b # evs) = c # spawned evs"
| "spawned (_ # evs) = spawned evs"

fun terminal :: "event list \<Rightarrow> string list" where
  "terminal [] = []"
| "terminal (Print t # evs) = t # terminal evs"
| "terminal (Inherited so se # evs) = so # se # terminal evs"
| "terminal (_ # evs) = terminal evs"

text \<open>The effects other than printing, in order.\<close>

fun effects :: "event list \<Rightarrow> event list" where
  "effects [] = []"
| "effects (Print t # evs) = effects evs"
| "effects (ev # evs) = ev # effects evs"

subsection \<open>Reading the environment\<close>

text \<open>
  The tool ran and reported success; the tool is missing or ran and reported a
  non-zero status; the two answers \<open>check_pandoc\<close> handles; an answer that
  \<open>except Exception\<close> can handle.
\<close>

fun succeeded :: "outcome \<Rightarrow> bool" where
  "succeeded (Exited rc so se) = (rc = 0)"
| "succeeded _ = False"

fun unavailable :: "outcome \<Rightarrow> bool" where
  "unavailable (Exited rc so se) = (rc \<noteq> 0)"
| "unavailable (NotFound m) = True"
| "unavailable _ = False"

fun anticipated :: "outcome \<Rightarrow> bool" where
  "anticipated (Exited rc so se) = True"
| "anticipated (NotFound m) = True"
| "anticipated _ = False"

fun catchable :: "outcome \<Rightarrow> bool" where
  "catchable Interrupted = False"
| "catchable _ = True"

text \<open>
  What a run of the script started in environment \<open>e\<close> meets: the answer to the probe,
  the environment the probe leaves, whether the input file exists when the script
  asks, and the answer to the conversion command.
\<close>

definition probe_outcome :: "'e os \<Rightarrow> 'e \<Rightarrow> outcome" where
  "probe_outcome os e = fst (os_spawn os probe_cmd e)"

definition after_probe :: "'e os \<Rightarrow> 'e \<Rightarrow> 'e" where
  "after_probe os e = snd (os_spawn os probe_cmd e)"

definition input_exists :: "'e os \<Rightarrow> 'e \<Rightarrow> bool" where
  "input_exists os e = os_exists os input_file (after_probe os e)"

definition convert_outcome :: "'e os \<Rightarrow> 'e \<Rightarrow> outcome" where
  "convert_outcome os e = fst (os_spawn os convert_cmd (after_probe os e))"

text \<open>
  The message of the Exception that the conversion call raises for an answer of the
  operating system, if it raises one: the tool is missing, the call failed, or the
  tool exited and one of its streams does not decode.
\<close>

fun conversion_error :: "'e os \<Rightarrow> outcome \<Rightarrow> string option" where
  "conversion_error os (Exited rc so se) =
     (case communicate os True True so se of Inl x \<Rightarrow> Some (str_exn x) | Inr r \<Rightarrow> None)"
| "conversion_error os (NotFound m) = Some m"
| "conversion_error os (Failed m) = Some m"
| "conversion_error os Interrupted = None"

definition missing_line :: string where
  "missing_line = ''Error: Game_Architecture_Documentation.md not found!''"

subsection \<open>Concrete environments\<close>

text \<open>
  A strict decoder, that of the ASCII codec: the bytes themselves when all are below
  128, and otherwise the message of Python for the first byte that is not, with the
  byte in hexadecimal and its position in decimal.
\<close>

definition digit_char :: "nat \<Rightarrow> char" where
  "digit_char n = ''0123456789abcdef'' ! (n mod 16)"

function decimal :: "nat \<Rightarrow> string" where
  "decimal n = (if n < 10 then [digit_char n] else decimal (n div 10) @ [digit_char (n mod 10)])"
  by pat_completeness auto
termination
  by (relation "measure id") auto

declare decimal.simps [simp del]

fun first_non_ascii :: "string \<Rightarrow> nat \<Rightarrow> (char \<times> nat) option" where
  "first_non_ascii [] i = None"
| "first_non_ascii (c # cs) i =
     (if (of_char c :: nat) < 128 then first_non_ascii cs (Suc i) else Some (c, i))"

definition ascii_decode :: "string \<Rightarrow> string + string" where
  "ascii_decode data =
     (case first_non_ascii data 0 of
        None \<Rightarrow> Inr data
      | Some (c, i) \<Rightarrow>
          Inl (apostrophe @ ''ascii'' @ apostrophe @ '' codec can'' @ apostrophe
               @ ''t decode byte 0x''
               @ [digit_char (of_char c div 16), digit_char (of_char c mod 16)]
               @ '' in position '' @ decimal i @ '': ordinal not in range(128)''))"

text \<open>
  An environment without state: the probe and the conversion command get fixed answers,
  and the input file is there or not.
\<close>

definition demo_os :: "outcome \<Rightarrow> outcome \<Rightarrow> bool \<Rightarrow> unit os" where
  "demo_os probe conv present =
     \<lparr>os_spawn = (\<lambda>args e. (if args = probe_cmd then probe else conv, e)),
      os_exists = (\<lambda>p e. present \<and> p = input_file),
      os_abspath = (\<lambda>p e. ''/home/user/docs/'' @ p),
      os_decode = ascii_decode\<rparr>"

text \<open>
  The external tool is a black box outside the repository. For the claim about the
  output file, the environment is a file system (path to content), and the tool is
  assumed to honour this contract: the version query succeeds and changes no file;
  the conversion command, when the input file is there, succeeds and writes to the
  output path a content \<open>render src\<close> that depends on the content of the input file
  only, changing no other file; and a path exists when the file system has it.
\<close>

definition converter_contract :: "(string \<rightharpoonup> string) os \<Rightarrow> (string \<Rightarrow> string) \<Rightarrow> bool" where
  "converter_contract os render \<longleftrightarrow>
     (\<forall>p fs. os_exists os p fs = (fs p \<noteq> None)) \<and>
     (\<forall>fs. succeeded (fst (os_spawn os probe_cmd fs)) \<and> snd (os_spawn os probe_cmd fs) = fs) \<and>
     (\<forall>fs src. fs input_file = Some src \<longrightarrow>
        succeeded (fst (os_spawn os convert_cmd fs)) \<and>
        snd (os_spawn os convert_cmd fs) = fs(output_file \<mapsto> render src))"

definition pandoc_os :: "(string \<Rightarrow> string) \<Rightarrow> (string \<rightharpoonup> string) os" where
  "pandoc_os render =
     \<lparr>os_spawn = (\<lambda>args fs.
        if args = convert_cmd then
          (case fs input_file of
             Some src \<Rightarrow> (Exited 0 [] [], fs(output_file \<mapsto> render src))
           | None \<Rightarrow> (Exited 1 [] ''pandoc: file does not exist'', fs))
        else (Exited 0 ''pandoc 3.1'' [], fs)),
      os_exists = (\<lambda>p fs. fs p \<noteq> None),
      os_abspath = (\<lambda>p fs. ''/work/'' @ p),
      os_decode = ascii_decode\<rparr>"

definition demo_render :: "string \<Rightarrow> string" where
  "demo_render src = ''docx of '' @ src"

definition demo_files :: "string \<rightharpoonup> string" where
  "demo_files = [input_file \<mapsto> ''# Game Architecture'']"

subsection \<open>Basic facts about the trace\<close>

lemma fold_print: "fold print ls s = s\<lparr>trace := trace s @ map Print ls\<rparr>"
  by (induction ls arbitrary: s) (simp_all add: print_def)

lemma manual_eq:
  "manual_conversion_instructions s = s\<lparr>trace := trace s @ map Print manual_lines\<rparr>"
  by (simp add: manual_conversion_instructions_def fold_print)

lemma printed_append [simp]: "printed (xs @ ys) = printed xs @ printed ys"
  by (induction xs rule: printed.induct) simp_all

lemma printed_map_Print [simp]: "printed (map Print ls) = ls"
  by (induction ls) simp_all

lemma spawned_append [simp]: "spawned (xs @ ys) = spawned xs @ spawned ys"
  by (induction xs rule: spawned.induct) simp_all

lemma spawned_map_Print [simp]: "spawned (map Print ls) = []"
  by (induction ls) simp_all

lemma terminal_append [simp]: "terminal (xs @ ys) = terminal xs @ terminal ys"
  by (induction xs rule: terminal.induct) simp_all

lemma effects_append [simp]: "effects (xs @ ys) = effects xs @ effects ys"
  by (induction xs rule: effects.induct) simp_all

lemma effects_map_Print [simp]: "effects (map Print ls) = []"
  by (induction ls) simp_all

lemma missing_line_eq: "''Error: '' @ input_file @ '' not found!'' = missing_line"
  by (simp add: input_file_def missing_line_def)

subsection \<open>The library call\<close>

text \<open>Without check, \<open>subprocess.run\<close> never raises CalledProcessError.\<close>

lemma subprocess_run_no_check:
  "fst (subprocess_run os args capture text False s) \<noteq> Inl (CalledProcessError rc cmd)"
  by (auto simp add: subprocess_run_def communicate_def translate_newlines_def Let_def
      split: prod.split outcome.split sum.split)

subsection \<open>The probe, case by case\<close>

lemma check_pandoc_Exited:
  "os_spawn os probe_cmd (env s) = (Exited rc so se, e') \<Longrightarrow>
   check_pandoc os s =
     (Inr (rc = 0), s\<lparr>env := e', trace := trace s @ [SubprocessRun probe_cmd True]\<rparr>)"
  by (simp add: check_pandoc_def subprocess_run_def communicate_def Let_def)

lemma check_pandoc_NotFound:
  "os_spawn os probe_cmd (env s) = (NotFound m, e') \<Longrightarrow>
   check_pandoc os s =
     (Inr False, s\<lparr>env := e', trace := trace s @ [SubprocessRun probe_cmd True]\<rparr>)"
  by (simp add: check_pandoc_def subprocess_run_def communicate_def Let_def)

lemma check_pandoc_Failed:
  "os_spawn os probe_cmd (env s) = (Failed m, e') \<Longrightarrow>
   check_pandoc os s =
     (Inl (OtherException m),
      s\<lparr>env := e', trace := trace s @ [SubprocessRun probe_cmd True]\<rparr>)"
  by (simp add: check_pandoc_def subprocess_run_def communicate_def Let_def)

lemma check_pandoc_Interrupted:
  "os_spawn os probe_cmd (env s) = (Interrupted, e') \<Longrightarrow>
   check_pandoc os s =
     (Inl KeyboardInterrupt,
      s\<lparr>env := e', trace := trace s @ [SubprocessRun probe_cmd True]\<rparr>)"
  by (simp add: check_pandoc_def subprocess_run_def communicate_def Let_def)

lemma check_pandoc_state:
  "snd (check_pandoc os s) =
     s\<lparr>env := snd (os_spawn os probe_cmd (env s)),
       trace := trace s @ [SubprocessRun probe_cmd True]\<rparr>"
proof (cases "os_spawn os probe_cmd (env s)")
  case (Pair out e')
  then show ?thesis
    by (cases out)
      (simp_all add: check_pandoc_Exited check_pandoc_NotFound check_pandoc_Failed
        check_pandoc_Interrupted)
qed

lemma check_pandoc_value:
  "fst (check_pandoc os s) =
     (case fst (os_spawn os probe_cmd (env s)) of
        Exited rc so se \<Rightarrow> Inr (rc = 0)
      | NotFound m \<Rightarrow> Inr False
      | Failed m \<Rightarrow> Inl (OtherException m)
      | Interrupted \<Rightarrow> Inl KeyboardInterrupt)"
proof (cases "os_spawn os probe_cmd (env s)")
  case (Pair out e')
  then show ?thesis
    by (cases out)
      (simp_all add: check_pandoc_Exited check_pandoc_NotFound check_pandoc_Failed
        check_pandoc_Interrupted)
qed

lemma check_pandoc_unavailable:
  assumes "unavailable (fst (os_spawn os probe_cmd (env s)))"
  shows "check_pandoc os s =
     (Inr False, s\<lparr>env := snd (os_spawn os probe_cmd (env s)),
                   trace := trace s @ [SubprocessRun probe_cmd True]\<rparr>)"
proof -
  from assms have "fst (check_pandoc os s) = Inr False"
    by (cases "fst (os_spawn os probe_cmd (env s))") (simp_all add: check_pandoc_value)
  then show ?thesis
    by (simp add: prod_eq_iff check_pandoc_state)
qed

lemma check_pandoc_succeeded:
  assumes "succeeded (fst (os_spawn os probe_cmd (env s)))"
  shows "check_pandoc os s =
     (Inr True, s\<lparr>env := snd (os_spawn os probe_cmd (env s)),
                  trace := trace s @ [SubprocessRun probe_cmd True]\<rparr>)"
proof -
  from assms have "fst (check_pandoc os s) = Inr True"
    by (cases "fst (os_spawn os probe_cmd (env s))") (simp_all add: check_pandoc_value)
  then show ?thesis
    by (simp add: prod_eq_iff check_pandoc_state)
qed

subsection \<open>The conversion, case by case\<close>

lemma convert_missing:
  "\<not> os_exists os input_file (env s) \<Longrightarrow>
   convert_with_pandoc os s =
     (Inr False, s\<lparr>trace := trace s @ [PathExists input_file, Print missing_line]\<rparr>)"
  by (simp add: convert_with_pandoc_def path_exists_def print_def missing_line_def input_file_def)

lemma convert_Exited:
  "os_exists os input_file (env s) \<Longrightarrow>
   os_spawn os convert_cmd (env s) = (Exited rc so se, e') \<Longrightarrow>
   translate_newlines os so = Inr tso \<Longrightarrow>
   translate_newlines os se = Inr tse \<Longrightarrow>
   convert_with_pandoc os s =
     (Inr (rc = 0),
      s\<lparr>env := e',
        trace := trace s @ [PathExists input_file, SubprocessRun convert_cmd True] @
          (if rc = 0 then
             [Print (check_mark @ '' Successfully converted to '' @ output_file),
              Print (page_emoji @ '' File location: '' @ os_abspath os output_file e')]
           else [Print (cross_mark @ '' Conversion failed: '' @ tse)])\<rparr>)"
  by (simp add: convert_with_pandoc_def path_exists_def print_def subprocess_run_def
      communicate_def Let_def)

text \<open>
  Every Exception of the conversion call is caught: the tool is missing, the call
  failed, or a stream of the tool does not decode, whatever its exit status.
\<close>

lemma convert_raised:
  assumes "os_exists os input_file (env s)"
    and "os_spawn os convert_cmd (env s) = (out, e')"
    and "conversion_error os out = Some m"
  shows "convert_with_pandoc os s =
     (Inr False,
      s\<lparr>env := e',
        trace := trace s @ [PathExists input_file, SubprocessRun convert_cmd True,
                            Print (cross_mark @ '' Error during conversion: '' @ m)]\<rparr>)"
proof (cases out)
  case (Exited rc so se)
  with assms(3) obtain x where x: "communicate os True True so se = Inl x"
    and m: "str_exn x = m"
    by (auto split: sum.splits)
  then obtain u where "x = UnicodeDecodeError u"
    by (auto simp add: communicate_def translate_newlines_def split: sum.splits)
  with assms(1,2) Exited x m show ?thesis
    by (simp add: convert_with_pandoc_def path_exists_def print_def subprocess_run_def
        Let_def)
next
  case (NotFound u)
  with assms show ?thesis
    by (simp add: convert_with_pandoc_def path_exists_def print_def subprocess_run_def
        Let_def)
next
  case (Failed u)
  with assms show ?thesis
    by (simp add: convert_with_pandoc_def path_exists_def print_def subprocess_run_def
        Let_def)
next
  case Interrupted
  with assms(3) show ?thesis by simp
qed

lemma conversion_decoded:
  assumes "conversion_error os (Exited rc so se) = None"
  obtains tso tse where "translate_newlines os so = Inr tso"
    and "translate_newlines os se = Inr tse"
  using assms by (auto simp add: communicate_def split: sum.splits)

lemma convert_Interrupted:
  "os_exists os input_file (env s) \<Longrightarrow>
   os_spawn os convert_cmd (env s) = (Interrupted, e') \<Longrightarrow>
   convert_with_pandoc os s =
     (Inl KeyboardInterrupt,
      s\<lparr>env := e',
        trace := trace s @ [PathExists input_file, SubprocessRun convert_cmd True]\<rparr>)"
  by (simp add: convert_with_pandoc_def path_exists_def print_def subprocess_run_def communicate_def Let_def)

subsection \<open>The whole run, case by case\<close>

lemma script_state: "snd (script os e) = snd (main os (initial e))"
  by (simp add: script_def split: prod.split sum.split exn.split)

lemma main_unavailable:
  assumes "unavailable (fst (os_spawn os probe_cmd (env s)))"
  shows "main os s =
     (Inr (), s\<lparr>env := snd (os_spawn os probe_cmd (env s)),
                trace := trace s @ map Print banner_lines @ [SubprocessRun probe_cmd True] @
                         map Print (not_found_line # manual_lines @ tips_lines)\<rparr>)"
  using assms
  by (simp add: main_def check_pandoc_unavailable fold_print manual_eq print_def)

lemma main_escapes:
  assumes "\<not> anticipated (fst (os_spawn os probe_cmd (env s)))"
  shows "\<exists>x. main os s =
     (Inl x, s\<lparr>env := snd (os_spawn os probe_cmd (env s)),
               trace := trace s @ map Print banner_lines @ [SubprocessRun probe_cmd True]\<rparr>)"
proof (cases "os_spawn os probe_cmd (env s)")
  case (Pair out e')
  with assms show ?thesis
    by (cases out)
      (simp_all add: main_def fold_print check_pandoc_Failed check_pandoc_Interrupted)
qed

text \<open>After a successful probe, the state in which \<open>convert_with_pandoc\<close> is called.\<close>

lemma main_found:
  assumes "succeeded (fst (os_spawn os probe_cmd (env s)))"
  shows "main os s =
     (case convert_with_pandoc os
             (s\<lparr>env := snd (os_spawn os probe_cmd (env s)),
                trace := trace s @ map Print banner_lines @
                         [SubprocessRun probe_cmd True, Print found_line]\<rparr>) of
        (Inl x, s2) \<Rightarrow> (Inl x, s2)
      | (Inr True, s2) \<Rightarrow>
          (Inr (), s2\<lparr>trace := trace s2 @ map Print (success_lines @ tips_lines)\<rparr>)
      | (Inr False, s2) \<Rightarrow>
          (Inr (), s2\<lparr>trace := trace s2 @ map Print (failed_line # manual_lines @ tips_lines)\<rparr>))"
  using assms
  by (simp add: main_def check_pandoc_succeeded fold_print manual_eq print_def
      split: prod.split sum.split bool.split)

lemma main_missing:
  assumes "succeeded (fst (os_spawn os probe_cmd (env s)))"
    and "\<not> os_exists os input_file (snd (os_spawn os probe_cmd (env s)))"
  shows "main os s =
     (Inr (), s\<lparr>env := snd (os_spawn os probe_cmd (env s)),
                trace := trace s @ map Print banner_lines @
                  [SubprocessRun probe_cmd True, Print found_line,
                   PathExists input_file, Print missing_line] @
                  map Print (failed_line # manual_lines @ tips_lines)\<rparr>)"
  using assms by (simp add: main_found convert_missing)

lemma main_converted:
  assumes "succeeded (fst (os_spawn os probe_cmd (env s)))"
    and "os_exists os input_file (snd (os_spawn os probe_cmd (env s)))"
    and "os_spawn os convert_cmd (snd (os_spawn os probe_cmd (env s))) = (Exited 0 so se, e')"
    and "translate_newlines os so = Inr tso"
    and "translate_newlines os se = Inr tse"
  shows "main os s =
     (Inr (), s\<lparr>env := e',
                trace := trace s @ map Print banner_lines @
                  [SubprocessRun probe_cmd True, Print found_line,
                   PathExists input_file, SubprocessRun convert_cmd True,
                   Print (check_mark @ '' Successfully converted to '' @ output_file),
                   Print (page_emoji @ '' File location: '' @ os_abspath os output_file e')] @
                  map Print (success_lines @ tips_lines)\<rparr>)"
  using assms by (simp add: main_found convert_Exited [where tso = tso and tse = tse])

lemma main_tool_failed:
  assumes "succeeded (fst (os_spawn os probe_cmd (env s)))"
    and "os_exists os input_file (snd (os_spawn os probe_cmd (env s)))"
    and "os_spawn os convert_cmd (snd (os_spawn os probe_cmd (env s))) = (Exited rc so se, e')"
    and "rc \<noteq> 0"
    and "translate_newlines os so = Inr tso"
    and "translate_newlines os se = Inr tse"
  shows "main os s =
     (Inr (), s\<lparr>env := e',
                trace := trace s @ map Print banner_lines @
                  [SubprocessRun probe_cmd True, Print found_line,
                   PathExists input_file, SubprocessRun convert_cmd True,
                   Print (cross_mark @ '' Conversion failed: '' @ tse)] @
                  map Print (failed_line # manual_lines @ tips_lines)\<rparr>)"
  using assms by (simp add: main_found convert_Exited [where tso = tso and tse = tse])

lemma main_tool_raised:
  assumes "succeeded (fst (os_spawn os probe_cmd (env s)))"
    and "os_exists os input_file (snd (os_spawn os probe_cmd (env s)))"
    and "os_spawn os convert_cmd (snd (os_spawn os probe_cmd (env s))) = (out, e')"
    and "conversion_error os out = Some m"
  shows "main os s =
     (Inr (), s\<lparr>env := e',
                trace := trace s @ map Print banner_lines @
                  [SubprocessRun probe_cmd True, Print found_line,
                   PathExists input_file, SubprocessRun convert_cmd True,
                   Print (cross_mark @ '' Error during conversion: '' @ m)] @
                  map Print (failed_line # manual_lines @ tips_lines)\<rparr>)"
  using assms by (simp add: main_found convert_raised [where out = out and m = m])

lemma main_interrupted:
  assumes "succeeded (fst (os_spawn os probe_cmd (env s)))"
    and "os_exists os input_file (snd (os_spawn os probe_cmd (env s)))"
    and "os_spawn os convert_cmd (snd (os_spawn os probe_cmd (env s))) = (Interrupted, e')"
  shows "main os s =
     (Inl KeyboardInterrupt, s\<lparr>env := e',
                trace := trace s @ map Print banner_lines @
                  [SubprocessRun probe_cmd True, Print found_line,
                   PathExists input_file, SubprocessRun convert_cmd True]\<rparr>)"
  using assms by (simp add: main_found convert_Interrupted)

text \<open>
  Whatever the conversion command answers, it is spawned once, and the environment it
  leaves is the one the script ends in.
\<close>

lemma main_spawned_twice:
  assumes "succeeded (fst (os_spawn os probe_cmd (env s)))"
    and "os_exists os input_file (snd (os_spawn os probe_cmd (env s)))"
  shows "effects (trace (snd (main os s))) =
           effects (trace s) @
           [SubprocessRun probe_cmd True, PathExists input_file, SubprocessRun convert_cmd True] \<and>
         env (snd (main os s)) =
           snd (os_spawn os convert_cmd (snd (os_spawn os probe_cmd (env s))))"
proof (cases "os_spawn os convert_cmd (snd (os_spawn os probe_cmd (env s)))")
  case (Pair out e')
  show ?thesis
  proof (cases "conversion_error os out")
    case (Some m)
    with Pair assms show ?thesis by (simp add: main_tool_raised [where m = m])
  next
    case None
    show ?thesis
    proof (cases out)
      case (Exited rc so se)
      with None have "conversion_error os (Exited rc so se) = None" by simp
      then obtain tso tse where "translate_newlines os so = Inr tso"
        and "translate_newlines os se = Inr tse"
        by (rule conversion_decoded)
      with Exited Pair assms show ?thesis
        by (cases "rc = 0")
          (simp_all add: main_converted [where tso = tso and tse = tse]
            main_tool_failed [where tso = tso and tse = tse])
    next
      case (NotFound m)
      with None show ?thesis by simp
    next
      case (Failed m)
      with None show ?thesis by simp
    next
      case Interrupted
      with Pair assms show ?thesis by (simp add: main_interrupted)
    qed
  qed
qed

lemma spawned_effects [simp]: "spawned (effects t) = spawned t"
  by (induction t rule: effects.induct) simp_all

lemma outcome_cases:
  obtains (escapes) "\<not> anticipated out"
  | (unavailable) "unavailable out"
  | (succeeded) "succeeded out"
  by (cases out) auto

lemma main_effects_head:
  "\<exists>rest. effects (trace (snd (main os s))) =
            effects (trace s) @ SubprocessRun probe_cmd True # rest"
proof (cases "fst (os_spawn os probe_cmd (env s))" rule: outcome_cases)
  case escapes
  from main_escapes [OF this] show ?thesis by auto
next
  case unavailable
  then show ?thesis by (simp add: main_unavailable)
next
  case succeeded
  then show ?thesis
    by (cases "os_exists os input_file (snd (os_spawn os probe_cmd (env s)))")
      (simp_all add: main_missing main_spawned_twice)
qed

text \<open>
  A run whose probe is answered in one of the two anticipated ways, and whose conversion
  command raises nothing outside Exception, returns from \<open>main\<close>.
\<close>

lemma main_completes:
  assumes "anticipated (fst (os_spawn os probe_cmd (env s)))"
    and "catchable (fst (os_spawn os convert_cmd (snd (os_spawn os probe_cmd (env s)))))"
  shows "\<exists>s' mid. main os s = (Inr (), s') \<and>
           (printed (trace s') =
              printed (trace s) @ banner_lines @ mid @ success_lines @ tips_lines \<or>
            printed (trace s') =
              printed (trace s) @ banner_lines @ mid @ manual_lines @ tips_lines)"
proof (cases "fst (os_spawn os probe_cmd (env s))" rule: outcome_cases)
  case escapes
  with assms(1) show ?thesis by simp
next
  case unavailable
  show ?thesis
    by (intro exI [where x = "[not_found_line]"] exI conjI disjI2,
        rule main_unavailable [OF unavailable]) simp
next
  case succeeded
  show ?thesis
  proof (cases "os_exists os input_file (snd (os_spawn os probe_cmd (env s)))")
    case False
    show ?thesis
      by (intro exI [where x = "[found_line, missing_line, failed_line]"] exI conjI disjI2,
          rule main_missing [OF succeeded False]) simp
  next
    case True
    obtain out e' where sp:
      "os_spawn os convert_cmd (snd (os_spawn os probe_cmd (env s))) = (out, e')"
      by (cases "os_spawn os convert_cmd (snd (os_spawn os probe_cmd (env s)))")
    with assms(2) have ok: "catchable out" by simp
    show ?thesis
    proof (cases "conversion_error os out")
      case (Some m)
      show ?thesis
        by (intro exI [where x = "[found_line,
                  cross_mark @ '' Error during conversion: '' @ m, failed_line]"]
              exI conjI disjI2,
            rule main_tool_raised [OF succeeded True sp Some]) simp
    next
      case None
      show ?thesis
      proof (cases out)
        case (Exited rc so se)
        with None have "conversion_error os (Exited rc so se) = None" by simp
        then obtain tso tse where tso: "translate_newlines os so = Inr tso"
          and tse: "translate_newlines os se = Inr tse"
          by (rule conversion_decoded)
        show ?thesis
        proof (cases "rc = 0")
          case True
          with sp Exited
          have sp0: "os_spawn os convert_cmd (snd (os_spawn os probe_cmd (env s))) =
                       (Exited 0 so se, e')"
            by simp
          show ?thesis
            by (intro exI [where x = "[found_line,
                    check_mark @ '' Successfully converted to '' @ output_file,
                    page_emoji @ '' File location: '' @ os_abspath os output_file e']"]
                  exI conjI disjI1,
                rule main_converted [OF succeeded \<open>os_exists os input_file _\<close> sp0 tso tse])
              simp
        next
          case False
          from sp Exited
          have spn: "os_spawn os convert_cmd (snd (os_spawn os probe_cmd (env s))) =
                       (Exited rc so se, e')"
            by simp
          show ?thesis
            by (intro exI [where x = "[found_line,
                    cross_mark @ '' Conversion failed: '' @ tse, failed_line]"]
                  exI conjI disjI2,
                rule main_tool_failed
                  [OF succeeded \<open>os_exists os input_file _\<close> spn False tso tse])
              simp
        qed
      next
        case (NotFound m)
        with None show ?thesis by simp
      next
        case (Failed m)
        with None show ?thesis by simp
      next
        case Interrupted
        with ok show ?thesis by simp
      qed
    qed
  qed
qed

text \<open>
  None of the fixed lines is the report of the missing file: none of them starts with
  the letter E.
\<close>

lemma static_heads:
  "list_all (\<lambda>l. hd l \<noteq> CHR ''E'')
     (banner_lines @ [not_found_line] @ manual_lines @ tips_lines)"
  by (simp add: banner_lines_def not_found_line_def manual_lines_def tips_lines_def
      nl_def cross_mark_def game_emoji_def books_emoji_def hd_replicate)

lemma missing_line_not_static:
  "missing_line \<notin> set (banner_lines @ [not_found_line] @ manual_lines @ tips_lines)"
proof
  assume "missing_line \<in> set (banner_lines @ [not_found_line] @ manual_lines @ tips_lines)"
  with static_heads have "hd missing_line \<noteq> CHR ''E''"
    unfolding list_all_iff by blast
  then show False by (simp add: missing_line_def)
qed

section \<open>The claims\<close>

text \<open>
  Claim C1, as amended. In every execution in which the input file does not exist when
  the script asks, and in which the probe either runs to an exit status or finds no
  tool, the conversion command is never spawned (the probe is the only subprocess) and
  the manual instructions are printed. The missing file is reported exactly when the
  probe succeeded: the existence check sits in \<open>convert_with_pandoc\<close>, which \<open>main\<close>
  calls only then.
\<close>

theorem missing_input_never_converts:
  assumes "\<not> input_exists os e" and "anticipated (probe_outcome os e)"
  shows "spawned (trace (snd (script os e))) = [probe_cmd] \<and>
         convert_cmd \<notin> set (spawned (trace (snd (script os e)))) \<and>
         printed (trace (snd (script os e))) =
           banner_lines @
           (if succeeded (probe_outcome os e) then [found_line, missing_line, failed_line]
            else [not_found_line]) @
           manual_lines @ tips_lines \<and>
         (missing_line \<in> set (printed (trace (snd (script os e)))) \<longleftrightarrow>
            succeeded (probe_outcome os e))"
proof -
  have neq: "convert_cmd \<noteq> probe_cmd"
    by (simp add: convert_cmd_def probe_cmd_def)
  note fixed = missing_line_not_static
  show ?thesis
  proof (cases "succeeded (probe_outcome os e)")
    case True
    with assms(1) have "main os (initial e) =
       (Inr (), (initial e)\<lparr>env := snd (os_spawn os probe_cmd e),
          trace := map Print banner_lines @
            [SubprocessRun probe_cmd True, Print found_line,
             PathExists input_file, Print missing_line] @
            map Print (failed_line # manual_lines @ tips_lines)\<rparr>)"
      using main_missing [of os "initial e"]
      by (simp add: initial_def probe_outcome_def input_exists_def after_probe_def)
    with True neq show ?thesis by (simp add: script_state)
  next
    case False
    with assms(2) have "unavailable (fst (os_spawn os probe_cmd e))"
      by (cases "fst (os_spawn os probe_cmd e)") (simp_all add: probe_outcome_def)
    then have "main os (initial e) =
       (Inr (), (initial e)\<lparr>env := snd (os_spawn os probe_cmd e),
          trace := map Print banner_lines @ [SubprocessRun probe_cmd True] @
                   map Print (not_found_line # manual_lines @ tips_lines)\<rparr>)"
      using main_unavailable [of os "initial e"] by (simp add: initial_def)
    with False neq fixed show ?thesis by (simp add: script_state)
  qed
qed

theorem missing_input_never_converts_witness:
  "\<not> input_exists (demo_os (Exited 0 ''pandoc 3.1'' []) (Exited 0 [] []) False) () \<and>
   anticipated (probe_outcome (demo_os (Exited 0 ''pandoc 3.1'' []) (Exited 0 [] []) False) ()) \<and>
   spawned (trace (snd (script (demo_os (Exited 0 ''pandoc 3.1'' []) (Exited 0 [] []) False) ())))
     = [probe_cmd] \<and>
   missing_line \<in> set (printed (trace (snd (script
     (demo_os (Exited 0 ''pandoc 3.1'' []) (Exited 0 [] []) False) ()))))"
  using missing_input_never_converts
    [of "demo_os (Exited 0 ''pandoc 3.1'' []) (Exited 0 [] []) False" "()"]
  by (simp add: demo_os_def input_exists_def probe_outcome_def)

text \<open>
  Claim C1 as stated fails: with the input file absent and pandoc absent, the script
  prints that pandoc was not found and the manual instructions, and never reports the
  missing file.
\<close>

theorem missing_input_unreported_counterexample:
  "\<not> input_exists (demo_os (NotFound ''pandoc'') (NotFound ''pandoc'') False) () \<and>
   missing_line \<notin> set (printed (trace (snd (script
     (demo_os (NotFound ''pandoc'') (NotFound ''pandoc'') False) ()))))"
proof -
  have "unavailable (fst (os_spawn (demo_os (NotFound ''pandoc'') (NotFound ''pandoc'') False)
          probe_cmd (env (initial ()))))"
    by (simp add: demo_os_def)
  from main_unavailable [OF this]
  have "printed (trace (snd (script (demo_os (NotFound ''pandoc'') (NotFound ''pandoc'') False) ())))
          = banner_lines @ [not_found_line] @ manual_lines @ tips_lines"
    by (simp add: script_state initial_def)
  with missing_line_not_static show ?thesis
    by (simp add: input_exists_def demo_os_def)
qed

text \<open>
  Claim C2. The control flow of \<open>main\<close> is one decision tree over the values returned by
  \<open>check_pandoc\<close> and \<open>convert_with_pandoc\<close>. Let \<open>p\<close> be the call of the probe after the
  banner and \<open>c\<close> the call of the conversion after the line that pandoc was found. When
  the probe returns True and the conversion returns True, main returns after printing
  the success lines (and the tips) on top of what the conversion did. When the probe
  returns True and the conversion returns False, main prints the failure line and then
  the manual instructions. When the probe returns False, main prints that pandoc was
  not found and the manual instructions right after the probe, and the probe is the
  only subprocess spawned.
\<close>

theorem main_decision_tree:
  "let p = check_pandoc os (fold print banner_lines s);
       c = convert_with_pandoc os (print found_line (snd p));
       r = main os s
   in (fst p = Inr True \<longrightarrow> fst c = Inr True \<longrightarrow>
         fst r = Inr () \<and>
         trace (snd r) = trace (snd c) @ map Print (success_lines @ tips_lines)) \<and>
      (fst p = Inr True \<longrightarrow> fst c = Inr False \<longrightarrow>
         fst r = Inr () \<and>
         trace (snd r) = trace (snd c) @ map Print (failed_line # manual_lines @ tips_lines)) \<and>
      (fst p = Inr False \<longrightarrow>
         fst r = Inr () \<and>
         trace (snd r) = trace (snd p) @ map Print (not_found_line # manual_lines @ tips_lines) \<and>
         spawned (trace (snd r)) = spawned (trace s) @ [probe_cmd])"
proof -
  have "spawned (trace (snd (check_pandoc os (fold print banner_lines s)))) =
          spawned (trace s) @ [probe_cmd]"
    by (simp add: check_pandoc_state fold_print)
  then show ?thesis
    by (cases "check_pandoc os (fold print banner_lines s)";
        cases "convert_with_pandoc os
                 (print found_line (snd (check_pandoc os (fold print banner_lines s))))")
      (simp add: main_def Let_def fold_print manual_eq print_def)
qed

theorem main_decision_tree_witness:
  "printed (trace (snd (main (demo_os (Exited 0 ''pandoc 3.1'' []) (Exited 0 [] []) True)
      (initial ())))) =
     banner_lines @
     [found_line,
      check_mark @ '' Successfully converted to Game_Architecture_Documentation.docx'',
      page_emoji @ '' File location: /home/user/docs/Game_Architecture_Documentation.docx''] @
     success_lines @ tips_lines \<and>
   printed (trace (snd (main
      (demo_os (Exited 0 ''pandoc 3.1'' []) (Exited 2 [] ''pandoc: unrecognized option'') True)
      (initial ())))) =
     banner_lines @
     [found_line, cross_mark @ '' Conversion failed: pandoc: unrecognized option'',
      failed_line] @
     manual_lines @ tips_lines \<and>
   printed (trace (snd (main (demo_os (NotFound ''pandoc'') (NotFound ''pandoc'') True)
      (initial ())))) =
     banner_lines @ [not_found_line] @ manual_lines @ tips_lines \<and>
   spawned (trace (snd (main (demo_os (NotFound ''pandoc'') (NotFound ''pandoc'') True)
      (initial ())))) = [probe_cmd]"
  using
    main_decision_tree [of "demo_os (Exited 0 ''pandoc 3.1'' []) (Exited 0 [] []) True"
      "initial ()"]
    main_decision_tree
      [of "demo_os (Exited 0 ''pandoc 3.1'' []) (Exited 2 [] ''pandoc: unrecognized option'') True"
      "initial ()"]
    main_decision_tree [of "demo_os (NotFound ''pandoc'') (NotFound ''pandoc'') True"
      "initial ()"]
  by (simp add: Let_def demo_os_def initial_def check_pandoc_def convert_with_pandoc_def
      subprocess_run_def communicate_def translate_newlines_def ascii_decode_def
      replace_cr_def path_exists_def print_def fold_print convert_cmd_def probe_cmd_def
      input_file_def output_file_def)

text \<open>
  Claim C3. \<open>check_pandoc\<close> returns True exactly when the tool ran and exited with
  status 0, and returns False exactly when the tool is missing or exited with a
  non-zero status.
\<close>

theorem check_pandoc_boolean:
  "(fst (check_pandoc os s) = Inr True \<longleftrightarrow>
      succeeded (fst (os_spawn os probe_cmd (env s)))) \<and>
   (fst (check_pandoc os s) = Inr False \<longleftrightarrow>
      unavailable (fst (os_spawn os probe_cmd (env s))))"
  by (cases "fst (os_spawn os probe_cmd (env s))") (simp_all add: check_pandoc_value)

theorem check_pandoc_boolean_witness:
  "fst (check_pandoc (demo_os (Exited 0 ''pandoc 3.1'' []) Interrupted True) (initial ()))
     = Inr True \<and>
   fst (check_pandoc (demo_os (Exited 1 [] ''error'') Interrupted True) (initial ()))
     = Inr False \<and>
   fst (check_pandoc (demo_os (NotFound ''pandoc'') Interrupted True) (initial ()))
     = Inr False"
  using
    check_pandoc_boolean [of "demo_os (Exited 0 ''pandoc 3.1'' []) Interrupted True" "initial ()"]
    check_pandoc_boolean [of "demo_os (Exited 1 [] ''error'') Interrupted True" "initial ()"]
    check_pandoc_boolean [of "demo_os (NotFound ''pandoc'') Interrupted True" "initial ()"]
  by (simp add: demo_os_def initial_def)




text \<open>
  Claim C5. In every execution in which the probe succeeds and the input file exists,
  the script spawns two subprocesses: the probe, and after it the conversion command,
  once, whatever it answers, with the fixed arguments: markdown as source format, docx
  as target format, standalone, table of contents, numbered sections.
\<close>

theorem one_conversion_call:
  assumes "succeeded (probe_outcome os e)" and "input_exists os e"
  shows "spawned (trace (snd (script os e))) =
           [[''pandoc'', ''--version''],
            [''pandoc'', ''Game_Architecture_Documentation.md'',
             ''-o'', ''Game_Architecture_Documentation.docx'',
             ''--from'', ''markdown'', ''--to'', ''docx'',
             ''--standalone'', ''--toc'', ''--number-sections'']]"
proof -
  from assms have "effects (trace (snd (main os (initial e)))) =
      [SubprocessRun probe_cmd True, PathExists input_file, SubprocessRun convert_cmd True]"
    using main_spawned_twice [of os "initial e"]
    by (simp add: initial_def probe_outcome_def input_exists_def after_probe_def)
  then have "spawned (effects (trace (snd (main os (initial e))))) = [probe_cmd, convert_cmd]"
    by simp
  then show ?thesis
    by (simp add: script_state probe_cmd_def convert_cmd_def input_file_def output_file_def)
qed

theorem one_conversion_call_witness:
  "succeeded (probe_outcome (demo_os (Exited 0 ''pandoc 3.1'' []) (Exited 0 [] []) True) ()) \<and>
   input_exists (demo_os (Exited 0 ''pandoc 3.1'' []) (Exited 0 [] []) True) () \<and>
   spawned (trace (snd (script (demo_os (Exited 0 ''pandoc 3.1'' []) (Exited 0 [] []) True) ())))
     = [probe_cmd, convert_cmd]"
  using one_conversion_call [of "demo_os (Exited 0 ''pandoc 3.1'' []) (Exited 0 [] []) True" "()"]
  by (simp add: demo_os_def probe_outcome_def input_exists_def probe_cmd_def convert_cmd_def
      input_file_def output_file_def)

text \<open>
  Claim C6. Under the anticipated conditions no exception leaves \<open>main\<close>, and the output
  ends with the success lines or with the manual instructions (each followed by the
  tips). The conditions: the probe either runs to an exit status or finds no tool, and
  the conversion command, when it is reached, does anything but raise outside Exception
  (it may exit with any status, be missing, or fail with any Exception); the input file
  may be there or not.
\<close>

theorem no_fatal_error:
  assumes "anticipated (probe_outcome os e)" and "catchable (convert_outcome os e)"
  shows "fst (main os (initial e)) = Inr () \<and>
         (\<exists>pre. printed (trace (snd (script os e))) = pre @ success_lines @ tips_lines \<or>
                printed (trace (snd (script os e))) = pre @ manual_lines @ tips_lines)"
proof -
  from assms obtain s' mid where m: "main os (initial e) = (Inr (), s')"
    and "printed (trace s') = banner_lines @ mid @ success_lines @ tips_lines \<or>
         printed (trace s') = banner_lines @ mid @ manual_lines @ tips_lines"
    using main_completes [of os "initial e"]
    by (auto simp add: initial_def probe_outcome_def convert_outcome_def after_probe_def)
  then have "printed (trace s') = (banner_lines @ mid) @ success_lines @ tips_lines \<or>
             printed (trace s') = (banner_lines @ mid) @ manual_lines @ tips_lines"
    by simp
  then have "\<exists>pre. printed (trace s') = pre @ success_lines @ tips_lines \<or>
                   printed (trace s') = pre @ manual_lines @ tips_lines"
    by (rule exI)
  with m show ?thesis by (simp add: script_state)
qed

theorem no_fatal_error_witness:
  "anticipated (probe_outcome
     (demo_os (Exited 0 ''pandoc 3.1'' []) (Failed ''[Errno 13] Permission denied'') True) ()) \<and>
   catchable (convert_outcome
     (demo_os (Exited 0 ''pandoc 3.1'' []) (Failed ''[Errno 13] Permission denied'') True) ()) \<and>
   fst (main (demo_os (Exited 0 ''pandoc 3.1'' []) (Failed ''[Errno 13] Permission denied'') True)
     (initial ())) = Inr ()"
  using no_fatal_error
    [of "demo_os (Exited 0 ''pandoc 3.1'' []) (Failed ''[Errno 13] Permission denied'') True" "()"]
  by (simp add: demo_os_def probe_outcome_def convert_outcome_def after_probe_def
      convert_cmd_def probe_cmd_def input_file_def)

text \<open>
  The first condition of C6 cannot be dropped: an exception raised by the probe other
  than the two that \<open>check_pandoc\<close> handles leaves \<open>main\<close>.
\<close>

lemma probe_exception_escapes:
  "fst (main (demo_os (Failed ''[Errno 13] Permission denied'') (Exited 0 [] []) True)
     (initial ())) = Inl (OtherException ''[Errno 13] Permission denied'')"
  by (simp add: main_def Let_def fold_print check_pandoc_Failed demo_os_def)

text \<open>
  Claim C8. The script defines no exit codes of its own: in every execution that
  completes normally (the conditions of C6) the exit status is 0, whether the
  conversion succeeded or failed altogether.
\<close>

theorem exit_status_zero:
  assumes "anticipated (probe_outcome os e)" and "catchable (convert_outcome os e)"
  shows "fst (script os e) = 0"
proof -
  from assms obtain s' where "main os (initial e) = (Inr (), s')"
    using main_completes [of os "initial e"]
    by (auto simp add: initial_def probe_outcome_def convert_outcome_def after_probe_def)
  then show ?thesis by (simp add: script_def)
qed

theorem exit_status_zero_witness:
  "anticipated (probe_outcome (demo_os (NotFound ''pandoc'') (NotFound ''pandoc'') False) ()) \<and>
   catchable (convert_outcome (demo_os (NotFound ''pandoc'') (NotFound ''pandoc'') False) ()) \<and>
   fst (script (demo_os (NotFound ''pandoc'') (NotFound ''pandoc'') False) ()) = 0 \<and>
   anticipated (probe_outcome (demo_os (Exited 0 ''pandoc 3.1'' []) (Exited 0 [] []) True) ()) \<and>
   catchable (convert_outcome (demo_os (Exited 0 ''pandoc 3.1'' []) (Exited 0 [] []) True) ()) \<and>
   fst (script (demo_os (Exited 0 ''pandoc 3.1'' []) (Exited 0 [] []) True) ()) = 0"
  using exit_status_zero [of "demo_os (NotFound ''pandoc'') (NotFound ''pandoc'') False" "()"]
    exit_status_zero [of "demo_os (Exited 0 ''pandoc 3.1'' []) (Exited 0 [] []) True" "()"]
  by (simp add: demo_os_def probe_outcome_def convert_outcome_def after_probe_def
      convert_cmd_def probe_cmd_def input_file_def)

text \<open>
  Claim C9. The probe shows nothing to the user: \<open>check_pandoc\<close> spawns its subprocess
  with captured output, and whatever the tool writes, and whether the call returns or
  raises, nothing is added to what has reached the terminal of the script.
\<close>

theorem probe_is_silent:
  "trace (snd (check_pandoc os s)) = trace s @ [SubprocessRun probe_cmd True] \<and>
   terminal (trace (snd (check_pandoc os s))) = terminal (trace s)"
  by (simp add: check_pandoc_state)

theorem probe_is_silent_witness:
  "terminal (trace (snd (check_pandoc
     (demo_os (Exited 0 ''pandoc 3.1'' ''warning'') Interrupted True) (initial ())))) = []"
  using probe_is_silent
    [of "demo_os (Exited 0 ''pandoc 3.1'' ''warning'') Interrupted True" "initial ()"]
  by (simp add: initial_def)

text \<open>
  Claim C10. In every execution the first effect of the script other than printing is
  the spawning of the probe, so the probe comes before the existence check. When the
  probe succeeds and the input file is absent, the effects are exactly the probe and
  then the existence check: one subprocess is spawned, for the probe.
\<close>

theorem probe_precedes_existence_check:
  "take 1 (effects (trace (snd (script os e)))) = [SubprocessRun probe_cmd True] \<and>
   (succeeded (probe_outcome os e) \<and> \<not> input_exists os e \<longrightarrow>
      effects (trace (snd (script os e))) =
        [SubprocessRun probe_cmd True, PathExists input_file] \<and>
      spawned (trace (snd (script os e))) = [probe_cmd])"
proof -
  obtain rest where
    "effects (trace (snd (main os (initial e)))) =
       effects (trace (initial e)) @ SubprocessRun probe_cmd True # rest"
    using main_effects_head [of os "initial e"] by blast
  then have "take 1 (effects (trace (snd (script os e)))) = [SubprocessRun probe_cmd True]"
    by (simp add: script_state initial_def)
  moreover have "effects (trace (snd (script os e))) =
        [SubprocessRun probe_cmd True, PathExists input_file] \<and>
      spawned (trace (snd (script os e))) = [probe_cmd]"
    if "succeeded (probe_outcome os e)" and "\<not> input_exists os e"
    using that main_missing [of os "initial e"]
    by (simp add: script_state initial_def probe_outcome_def input_exists_def after_probe_def)
  ultimately show ?thesis by blast
qed

theorem probe_precedes_existence_check_witness:
  "succeeded (probe_outcome (demo_os (Exited 0 ''pandoc 3.1'' []) (Exited 0 [] []) False) ()) \<and>
   \<not> input_exists (demo_os (Exited 0 ''pandoc 3.1'' []) (Exited 0 [] []) False) () \<and>
   effects (trace (snd (script (demo_os (Exited 0 ''pandoc 3.1'' []) (Exited 0 [] []) False) ())))
     = [SubprocessRun probe_cmd True, PathExists input_file]"
  using probe_precedes_existence_check
    [of "demo_os (Exited 0 ''pandoc 3.1'' []) (Exited 0 [] []) False" "()"]
  by (simp add: demo_os_def probe_outcome_def input_exists_def)

text \<open>
  Claim C7. Running the script twice in succession, with the input file there and a
  tool that honours the contract above (so that it succeeds both times), leaves the
  same files as running it once: the output path holds the rendering of the input
  file, it has been overwritten in place, and no other path has appeared. The script
  contributes that both runs issue the same command with the same output path, that
  the output path differs from the input path, and that it writes no file itself.
\<close>

theorem conversion_idempotent:
  assumes "converter_contract os render" and "fs input_file = Some src"
  shows "env (snd (script os fs)) = fs(output_file \<mapsto> render src) \<and>
         env (snd (script os (env (snd (script os fs))))) = env (snd (script os fs)) \<and>
         dom (env (snd (script os (env (snd (script os fs)))))) = insert output_file (dom fs)"
proof -
  have once: "env (snd (script os g)) = g(output_file \<mapsto> render src)"
    if g: "g input_file = Some src" for g
  proof -
    from assms(1) have probe: "succeeded (fst (os_spawn os probe_cmd g))"
      and same: "snd (os_spawn os probe_cmd g) = g"
      by (simp_all add: converter_contract_def)
    from assms(1) g have there: "os_exists os input_file g"
      by (simp add: converter_contract_def)
    from assms(1) g have ok: "succeeded (fst (os_spawn os convert_cmd g))"
      and written: "snd (os_spawn os convert_cmd g) = g(output_file \<mapsto> render src)"
      by (simp_all add: converter_contract_def)
    from probe same there written show ?thesis
      using main_spawned_twice [of os "initial g"]
      by (simp add: script_state initial_def)
  qed
  have "input_file \<noteq> output_file"
    by (simp add: input_file_def output_file_def)
  with assms(2) have kept: "(fs(output_file \<mapsto> render src)) input_file = Some src"
    by simp
  from assms(2) kept once [of fs] once [of "fs(output_file \<mapsto> render src)"]
  show ?thesis by simp
qed

theorem conversion_idempotent_witness:
  "converter_contract (pandoc_os demo_render) demo_render \<and>
   demo_files input_file = Some ''# Game Architecture'' \<and>
   env (snd (script (pandoc_os demo_render) demo_files)) output_file =
     Some ''docx of # Game Architecture'' \<and>
   env (snd (script (pandoc_os demo_render)
     (env (snd (script (pandoc_os demo_render) demo_files))))) =
     env (snd (script (pandoc_os demo_render) demo_files))"
proof -
  have contract: "converter_contract (pandoc_os demo_render) demo_render"
    by (simp add: converter_contract_def pandoc_os_def convert_cmd_def probe_cmd_def
        input_file_def)
  have there: "demo_files input_file = Some ''# Game Architecture''"
    by (simp add: demo_files_def)
  from contract there
    conversion_idempotent
      [of "pandoc_os demo_render" demo_render demo_files "''# Game Architecture''"]
  have once: "env (snd (script (pandoc_os demo_render) demo_files)) =
      demo_files(output_file \<mapsto> demo_render ''# Game Architecture'')"
    and twice: "env (snd (script (pandoc_os demo_render)
        (env (snd (script (pandoc_os demo_render) demo_files))))) =
      env (snd (script (pandoc_os demo_render) demo_files))"
    by blast+
  from once have "env (snd (script (pandoc_os demo_render) demo_files)) output_file =
      Some ''docx of # Game Architecture''"
    by (simp add: demo_render_def)
  with contract there twice show ?thesis by blast
qed

end
